theory Spec2Isabelle
  imports Complex_Main
begin

section \<open>Shapes of data-morph: data model\<close>

text \<open>
  The module \<^verbatim>\<open>data_morph/shapes.py\<close> is embedded function by function. Python floats
  are read as real numbers, so rounding is not modelled; every exception the module can
  raise is a value of \<open>pyerror\<close>, and a function that can raise returns
  \<open>pyerror + 'a\<close> with \<open>Inl\<close> for the exception.
\<close>

datatype pyerror =
    ValueError string
  | TypeError string
  | KeyError string
  | AttributeError string
  | ZeroDivisionError

type_synonym point = "real \<times> real"

text \<open>A line is the two-element list \<^verbatim>\<open>[start, end]\<close> that \<^verbatim>\<open>start, end = line\<close> unpacks.\<close>

type_synonym line = "point \<times> point"

text \<open>
  The data frame handed to the constructors: its two columns. The pandas reductions used by
  the module are written out below; on an empty column pandas answers NaN, which the real
  numbers do not have, so statements about the reductions are read for non-empty columns.
\<close>

record dataset =
  data_x :: "real list"
  data_y :: "real list"

definition mean :: "real list \<Rightarrow> real" where
  "mean col = sum_list col / real (length col)"

definition col_min :: "real list \<Rightarrow> real" where
  "col_min col = Min (set col)"

definition col_max :: "real list \<Rightarrow> real" where
  "col_max col = Max (set col)"

text \<open>\<^verbatim>\<open>Series.quantile(qs).tolist()\<close> with pandas' default linear interpolation.\<close>

definition quantile :: "real list \<Rightarrow> real list \<Rightarrow> real list" where
  "quantile col qs =
     map (\<lambda>q. let s = sort col;
                  h = real (length s - 1) * q;
                  lo = nat \<lfloor>h\<rfloor>;
                  hi = min (lo + 1) (length s - 1)
              in s ! lo + (h - real lo) * (s ! hi - s ! lo)) qs"

section \<open>Helpers of the embedding\<close>

text \<open>A comprehension whose body can raise: the first exception ends it.\<close>

fun collect :: "('a \<Rightarrow> pyerror + 'b) \<Rightarrow> 'a list \<Rightarrow> pyerror + 'b list" where
  "collect f [] = Inr []"
| "collect f (a # as) =
     (case f a of
        Inl e \<Rightarrow> Inl e
      | Inr b \<Rightarrow> (case collect f as of Inl e \<Rightarrow> Inl e | Inr bs \<Rightarrow> Inr (b # bs)))"

text \<open>Python's \<^verbatim>\<open>min\<close> over an iterable raises ValueError when there is nothing in it.\<close>

fun py_min :: "real list \<Rightarrow> pyerror + real" where
  "py_min [] = Inl (ValueError ''min() arg is an empty sequence'')"
| "py_min (v # vs) = Inr (fold min vs v)"

definition min_of :: "(pyerror + real list) \<Rightarrow> pyerror + real" where
  "min_of res = (case res of Inl e \<Rightarrow> Inl e | Inr vs \<Rightarrow> py_min vs)"

text \<open>Float division; a zero divisor raises.\<close>

definition py_div :: "real \<Rightarrow> real \<Rightarrow> pyerror + real" where
  "py_div a b = (if b = 0 then Inl ZeroDivisionError else Inr (a / b))"

text \<open>\<^verbatim>\<open>itertools.product(*pools)\<close>: the rightmost pool advances fastest.\<close>

fun product :: "'a list list \<Rightarrow> 'a list list" where
  "product [] = [[]]"
| "product (pool # pools) = concat (map (\<lambda>a. map ((#) a) (product pools)) pool)"

section \<open>Shape._euclidean_distance\<close>

text \<open>\<^verbatim>\<open>distance.euclidean(a, b)\<close> of scipy on two points.\<close>

definition euclidean_distance :: "point \<Rightarrow> point \<Rightarrow> real" where
  "euclidean_distance a b = sqrt ((fst a - fst b)\<^sup>2 + (snd a - snd b)\<^sup>2)"

text \<open>
  The same call when the first argument is a tuple of coordinate lists, as the entries of
  \<^verbatim>\<open>Dots.dots\<close> are. scipy validates each argument as a 1-D vector; its older releases
  squeeze axes of length one first, which is the more permissive reading taken here (the
  newer ones reject every 2-D argument). The difference of the two vectors then follows
  numpy's broadcasting: equal lengths, or length one against any length.
\<close>

definition validate_vector :: "real list list \<Rightarrow> pyerror + real list" where
  "validate_vector u =
     (case u of
        [row] \<Rightarrow> Inr row
      | _ \<Rightarrow> if list_all (\<lambda>row. length row = 1) u then Inr (concat u)
             else Inl (ValueError ''Input vector should be 1-D.''))"

definition euclidean_nd :: "real list list \<Rightarrow> point \<Rightarrow> pyerror + real" where
  "euclidean_nd u v =
     (case validate_vector u of
        Inl e \<Rightarrow> Inl e
      | Inr w \<Rightarrow>
          (case w of
             [a, b] \<Rightarrow> Inr (euclidean_distance (a, b) v)
           | [a] \<Rightarrow> Inr (euclidean_distance (a, a) v)
           | _ \<Rightarrow> Inl (ValueError ''operands could not be broadcast together'')))"

section \<open>Circle\<close>

record circle =
  cx :: real
  cy :: real
  r :: real

text \<open>A positional argument of a constructor call: the data frame, or a number.\<close>

datatype pyarg = Data dataset | Num real

text \<open>
  \<^verbatim>\<open>Circle.__init__(self, data)\<close> takes one argument besides \<^verbatim>\<open>self\<close>; a call with
  another number of arguments raises TypeError before the body runs, and a number in place
  of the data frame has no attribute \<^verbatim>\<open>x\<close>.
\<close>

fun Circle_init :: "pyarg list \<Rightarrow> pyerror + circle" where
  "Circle_init [Data d] =
     Inr \<lparr>cx = mean (data_x d), cy = mean (data_y d), r = 30\<rparr>"
| "Circle_init [Num v] = Inl (AttributeError ''x'')"
| "Circle_init args = Inl (TypeError ''Circle.__init__() takes 2 positional arguments'')"

definition Circle_distance :: "circle \<Rightarrow> real \<Rightarrow> real \<Rightarrow> real" where
  "Circle_distance c px py = \<bar>euclidean_distance (cx c, cy c) (px, py) - r c\<bar>"

section \<open>Bullseye\<close>

definition Bullseye_init :: "dataset \<Rightarrow> pyerror + circle list" where
  "Bullseye_init d =
     collect (\<lambda>rad. Circle_init [Num (mean (data_x d)), Num (mean (data_y d)), Num rad])
       [18, 37]"

definition Bullseye_distance :: "circle list \<Rightarrow> real \<Rightarrow> real \<Rightarrow> pyerror + real" where
  "Bullseye_distance circles px py = py_min (map (\<lambda>c. Circle_distance c px py) circles)"

section \<open>Dots\<close>

text \<open>
  \<^verbatim>\<open>itertools.product\<close> is called with one argument, the generator of the two quantile
  lists, so that generator is its only pool.
\<close>

definition Dots_init :: "dataset \<Rightarrow> real list list list" where
  "Dots_init d =
     product [map (\<lambda>col. quantile col [0.05, 0.5, 0.95]) [data_x d, data_y d]]"

definition Dots_distance :: "real list list list \<Rightarrow> real \<Rightarrow> real \<Rightarrow> pyerror + real" where
  "Dots_distance dots px py = min_of (collect (\<lambda>dot. euclidean_nd dot (px, py)) dots)"

section \<open>Lines\<close>

definition distance_point_to_line :: "point \<Rightarrow> line \<Rightarrow> pyerror + real" where
  "distance_point_to_line pt seg =
     (let (start, stop) = seg;
          line_mag = euclidean_distance start stop
      in if line_mag < 0.00000001 then Inr 9999
         else
           let (px, py) = pt;
               (x1, y1) = start;
               (x2, y2) = stop;
               u1 = ((px - x1) * (x2 - x1)) + ((py - y1) * (y2 - y1))
           in case py_div u1 (line_mag * line_mag) of
                Inl e \<Rightarrow> Inl e
              | Inr u \<Rightarrow>
                  if u < 0.00001 \<or> u > 1 then
                    Inr (max (euclidean_distance pt start) (euclidean_distance pt stop))
                  else
                    let ix = x1 + u * (x2 - x1);
                        iy = y1 + u * (y2 - y1)
                    in Inr (euclidean_distance pt (ix, iy)))"

definition Lines_distance :: "line list \<Rightarrow> real \<Rightarrow> real \<Rightarrow> pyerror + real" where
  "Lines_distance lines px py =
     min_of (collect (\<lambda>seg. distance_point_to_line (px, py) seg) lines)"

text \<open>
  The projection parameter of a point onto the line through a segment, in the words of the
  specification: the dot product of \<open>p - start\<close> with \<open>stop - start\<close>, normalised by the
  squared length. The code divides by \<^verbatim>\<open>line_mag * line_mag\<close> instead; the two agree
  (\<open>distance_point_to_line_proper\<close> below).
\<close>

definition projection_u :: "point \<Rightarrow> line \<Rightarrow> real" where
  "projection_u pt seg =
     (case (pt, seg) of
        ((px, py), ((x1, y1), (x2, y2))) \<Rightarrow>
          ((px - x1) * (x2 - x1) + (py - y1) * (y2 - y1)) / ((x2 - x1)\<^sup>2 + (y2 - y1)\<^sup>2))"

definition XLines_init :: "dataset \<Rightarrow> line list" where
  "XLines_init d =
     (let xmin = col_min (data_x d); ymin = col_min (data_y d);
          xmax = col_max (data_x d); ymax = col_max (data_y d)
      in [((xmin, ymin), (xmax, ymax)), ((xmin, ymax), (xmax, ymin))])"

definition HorizontalLines_init :: "dataset \<Rightarrow> line list" where
  "HorizontalLines_init d = map (\<lambda>v. ((0, v), (100, v))) [10, 30, 50, 70, 90]"

definition VerticalLines_init :: "dataset \<Rightarrow> line list" where
  "VerticalLines_init d = map (\<lambda>v. ((v, 0), (v, 100))) [10, 30, 50, 70, 90]"

section \<open>The shapes and the factory\<close>

datatype shape =
    Circle circle
  | Bullseye "circle list"
  | Dots "real list list list"
  | XLines "line list"
  | HorizontalLines "line list"
  | VerticalLines "line list"

fun distance :: "shape \<Rightarrow> real \<Rightarrow> real \<Rightarrow> pyerror + real" where
  "distance (Circle c) px py = Inr (Circle_distance c px py)"
| "distance (Bullseye circles) px py = Bullseye_distance circles px py"
| "distance (Dots dots) px py = Dots_distance dots px py"
| "distance (XLines lines) px py = Lines_distance lines px py"
| "distance (HorizontalLines lines) px py = Lines_distance lines px py"
| "distance (VerticalLines lines) px py = Lines_distance lines px py"

definition AVAILABLE_SHAPES :: "(string \<times> (dataset \<Rightarrow> pyerror + shape)) list" where
  "AVAILABLE_SHAPES =
     [(''circle'', \<lambda>d. map_sum id Circle (Circle_init [Data d])),
      (''bullseye'', \<lambda>d. map_sum id Bullseye (Bullseye_init d)),
      (''dots'', \<lambda>d. Inr (Dots (Dots_init d))),
      (''x'', \<lambda>d. Inr (XLines (XLines_init d))),
      (''h_lines'', \<lambda>d. Inr (HorizontalLines (HorizontalLines_init d))),
      (''v_lines'', \<lambda>d. Inr (VerticalLines (VerticalLines_init d)))]"

text \<open>
  The \<^verbatim>\<open>try\<close> covers the call of the constructor as well as the lookup, so a KeyError
  from either becomes the ValueError; any other exception passes through.
\<close>

definition generate_shape :: "dataset \<Rightarrow> string \<Rightarrow> pyerror + shape" where
  "generate_shape d name =
     (case map_of AVAILABLE_SHAPES name of
        None \<Rightarrow> Inl (ValueError (''No such shape as '' @ name @ ''.''))
      | Some ctor \<Rightarrow>
          (case ctor d of
             Inl (KeyError k) \<Rightarrow> Inl (ValueError (''No such shape as '' @ name @ ''.''))
           | res \<Rightarrow> res))"

section \<open>Auxiliary facts\<close>

lemma sqrt_square_eq: "0 \<le> v \<Longrightarrow> sqrt (v * v) = v"
  by (simp add: real_sqrt_mult)

lemma euclidean_distance_nonneg: "0 \<le> euclidean_distance a b"
  by (simp add: euclidean_distance_def)

lemma line_mag_square:
  "euclidean_distance (x1, y1) (x2, y2) * euclidean_distance (x1, y1) (x2, y2)
     = (x2 - x1)\<^sup>2 + (y2 - y1)\<^sup>2"
proof -
  have "0 \<le> (x1 - x2)\<^sup>2 + (y1 - y2)\<^sup>2" by simp
  then have "sqrt ((x1 - x2)\<^sup>2 + (y1 - y2)\<^sup>2) * sqrt ((x1 - x2)\<^sup>2 + (y1 - y2)\<^sup>2)
      = (x1 - x2)\<^sup>2 + (y1 - y2)\<^sup>2"
    by simp
  then show ?thesis
    by (simp add: euclidean_distance_def power2_commute)
qed


text \<open>
  On a segment that is not degenerate the division never has a zero divisor, and the
  function is the two-way branch on the projection parameter.
\<close>

lemma distance_point_to_line_proper:
  assumes "\<not> euclidean_distance (x1, y1) (x2, y2) < 0.00000001"
  shows "distance_point_to_line (px, py) ((x1, y1), (x2, y2)) =
     (let u = projection_u (px, py) ((x1, y1), (x2, y2)) in
      if u < 0.00001 \<or> u > 1 then
        Inr (max (euclidean_distance (px, py) (x1, y1)) (euclidean_distance (px, py) (x2, y2)))
      else Inr (euclidean_distance (px, py) (x1 + u * (x2 - x1), y1 + u * (y2 - y1))))"
proof -
  let ?L = "euclidean_distance (x1, y1) (x2, y2)"
  from assms have "0 < ?L" by simp
  then have nz: "?L * ?L \<noteq> 0" by simp
  show ?thesis
    using assms nz
    unfolding distance_point_to_line_def py_div_def projection_u_def Let_def
    by (simp add: line_mag_square)
qed


text \<open>
  The start point of a proper segment has projection parameter 0, below the tolerance, so
  it takes the endpoint branch and is given the length of the segment.
\<close>

lemma distance_point_to_line_at_start:
  assumes "\<not> euclidean_distance (x1, y1) (x2, y2) < 0.00000001"
  shows "distance_point_to_line (x1, y1) ((x1, y1), (x2, y2))
           = Inr (euclidean_distance (x1, y1) (x2, y2))"
proof -
  have u: "projection_u (x1, y1) ((x1, y1), (x2, y2)) = 0"
    by (simp add: projection_u_def)
  have z: "euclidean_distance (x1, y1) (x1, y1) = 0"
    by (simp add: euclidean_distance_def)
  show ?thesis
    by (simp add: distance_point_to_line_proper[OF assms] u z euclidean_distance_nonneg)
qed


subsection \<open>Comprehensions and minima\<close>












subsection \<open>What the factory builds for each registered name\<close>

lemma generate_shape_known:
  "generate_shape d ''circle'' =
     Inr (Circle \<lparr>cx = mean (data_x d), cy = mean (data_y d), r = 30\<rparr>)"
  "generate_shape d ''bullseye'' =
     Inl (TypeError ''Circle.__init__() takes 2 positional arguments'')"
  "generate_shape d ''dots'' = Inr (Dots (Dots_init d))"
  "generate_shape d ''x'' = Inr (XLines (XLines_init d))"
  "generate_shape d ''h_lines'' = Inr (HorizontalLines (HorizontalLines_init d))"
  "generate_shape d ''v_lines'' = Inr (VerticalLines (VerticalLines_init d))"
  by (simp_all add: generate_shape_def AVAILABLE_SHAPES_def Bullseye_init_def)

section \<open>The claims\<close>

text \<open>
  C1. In \<open>distance_point_to_line\<close>, on a segment that is not degenerate, whenever the
  projection parameter of the point is below the tolerance 0.00001 or above 1, the result
  is the larger of the point's Euclidean distances to the two endpoints.
\<close>

theorem distance_point_to_line_outside_is_max:
  "\<not> euclidean_distance (fst seg) (snd seg) < 0.00000001 \<Longrightarrow>
   projection_u pt seg < 0.00001 \<or> 1 < projection_u pt seg \<Longrightarrow>
   distance_point_to_line pt seg =
     Inr (max (euclidean_distance pt (fst seg)) (euclidean_distance pt (snd seg)))"
proof -
  assume nd: "\<not> euclidean_distance (fst seg) (snd seg) < 0.00000001"
    and out: "projection_u pt seg < 0.00001 \<or> 1 < projection_u pt seg"
  obtain px py x1 y1 x2 y2 where e: "pt = (px, py)" "seg = ((x1, y1), (x2, y2))"
    by (metis surj_pair)
  from nd have nd': "\<not> euclidean_distance (x1, y1) (x2, y2) < 0.00000001"
    by (simp add: e)
  show ?thesis
    using out unfolding e by (simp add: distance_point_to_line_proper[OF nd'] Let_def)
qed

text \<open>
  The point (6, 8) beyond the end of the segment from (0, 0) to (3, 4) has parameter 2; its
  endpoint distances are 10 and 5, and the result is 10.
\<close>

theorem distance_point_to_line_outside_is_max_witness:
  "\<not> euclidean_distance (0, 0) (3, 4) < 0.00000001
   \<and> 1 < projection_u (6, 8) ((0, 0), (3, 4))
   \<and> euclidean_distance (6, 8) (0, 0) = 10
   \<and> euclidean_distance (6, 8) (3, 4) = 5
   \<and> distance_point_to_line (6, 8) ((0, 0), (3, 4)) = Inr 10"
proof -
  have L: "euclidean_distance (0, 0) (3, 4) = 5"
    using sqrt_square_eq[of 5] by (simp add: euclidean_distance_def)
  have nd: "\<not> euclidean_distance (fst ((0, 0), (3, 4)))
                (snd ((0::real, 0::real), (3::real, 4::real))) < 0.00000001"
    by (simp add: L)
  have u: "projection_u (6, 8) ((0, 0), (3, 4)) = 2"
    by (simp add: projection_u_def)
  have a: "euclidean_distance (6, 8) (0, 0) = 10"
    using sqrt_square_eq[of 10] by (simp add: euclidean_distance_def)
  have b: "euclidean_distance (6, 8) (3, 4) = 5"
    using sqrt_square_eq[of 5] by (simp add: euclidean_distance_def)
  show ?thesis
    using distance_point_to_line_outside_is_max[of "((0, 0), (3, 4))" "(6, 8)", OF nd] L u a b
    by simp
qed

text \<open>
  C2. On the horizontal segment from (0, 10) to (100, 10) the function gives 0 at (50, 10)
  and 10 at (50, 20), as claimed; at (-10, 10), whose projection falls before the start, it
  gives 110, the distance to the far endpoint, where the claim expects 10.
\<close>

theorem distance_point_to_line_horizontal_values:
  "distance_point_to_line (50, 10) ((0, 10), (100, 10)) = Inr 0
   \<and> distance_point_to_line (50, 20) ((0, 10), (100, 10)) = Inr 10
   \<and> distance_point_to_line (-10, 10) ((0, 10), (100, 10)) = Inr 110"
proof -
  have L: "euclidean_distance (0, 10) (100, 10) = 100"
    using sqrt_square_eq[of 100] by (simp add: euclidean_distance_def)
  have nd: "\<not> euclidean_distance (0, 10) (100, 10) < 0.00000001"
    by (simp add: L)
  have a: "distance_point_to_line (50, 10) ((0, 10), (100, 10)) = Inr 0"
    by (simp add: distance_point_to_line_proper[OF nd] projection_u_def euclidean_distance_def)
  have b: "distance_point_to_line (50, 20) ((0, 10), (100, 10)) = Inr 10"
    using sqrt_square_eq[of 10]
    by (simp add: distance_point_to_line_proper[OF nd] projection_u_def euclidean_distance_def)
  have c: "distance_point_to_line (-10, 10) ((0, 10), (100, 10)) = Inr 110"
    using sqrt_square_eq[of 10] sqrt_square_eq[of 110]
    by (simp add: distance_point_to_line_proper[OF nd] projection_u_def euclidean_distance_def)
  show ?thesis using a b c by simp
qed

text \<open>
  C3. The claim describes a Bullseye of two circles of radii 18 and 37 around the mean.
  The constructor calls \<^verbatim>\<open>Circle\<close> with three numbers, which \<^verbatim>\<open>Circle.__init__\<close> does
  not accept: for every data frame, building the shape named bullseye raises TypeError and
  no Bullseye exists.
\<close>

theorem bullseye_construction_raises:
  "generate_shape d ''bullseye'' =
     Inl (TypeError ''Circle.__init__() takes 2 positional arguments'')"
  by (simp add: generate_shape_def AVAILABLE_SHAPES_def Bullseye_init_def)

text \<open>
  C4. The claim describes nine dots, the product of three x quantiles with three y
  quantiles. For every data frame the constructed shape holds two entries, each a 1-tuple
  around one quantile list, and its distance raises ValueError at every point.
\<close>

theorem dots_holds_two_entries:
  "generate_shape d ''dots'' =
      Inr (Dots [[quantile (data_x d) [0.05, 0.5, 0.95]],
                 [quantile (data_y d) [0.05, 0.5, 0.95]]])
   \<and> length (Dots_init d) = 2
   \<and> distance (Dots (Dots_init d)) px py =
       Inl (ValueError ''operands could not be broadcast together'')"
  by (simp add: generate_shape_def AVAILABLE_SHAPES_def Dots_init_def Dots_distance_def
      min_of_def euclidean_nd_def validate_vector_def quantile_def)

text \<open>
  C5. For every point, \<open>distance_point_to_line\<close> on a segment shorter than the epsilon
  0.00000001, such as the one from (5, 5) to (5, 5), returns the sentinel 9999: it returns a
  value, so it neither raises nor divides by zero.
\<close>

theorem distance_point_to_line_degenerate_sentinel:
  "(euclidean_distance start stop < 0.00000001 \<longrightarrow>
      distance_point_to_line pt (start, stop) = Inr 9999)
   \<and> distance_point_to_line pt ((5, 5), (5, 5)) = Inr 9999"
  by (simp add: distance_point_to_line_def euclidean_distance_def)

theorem distance_point_to_line_degenerate_sentinel_witness:
  "euclidean_distance (2, 3) (2, 3) < 0.00000001
   \<and> distance_point_to_line (1, 2) ((2, 3), (2, 3)) = Inr 9999"
  using distance_point_to_line_degenerate_sentinel[of "(2, 3)" "(2, 3)" "(1, 2)"]
  by (simp add: euclidean_distance_def)

text \<open>
  C6. For every name that is not a key of the registry, \<open>generate_shape\<close> fails with the
  ValueError whose message is \<^verbatim>\<open>No such shape as {name}.\<close>; no shape is returned.
\<close>

theorem generate_shape_unknown_name:
  "name \<notin> set (map fst AVAILABLE_SHAPES) \<Longrightarrow>
     generate_shape d name = Inl (ValueError (''No such shape as '' @ name @ ''.''))"
proof -
  assume "name \<notin> set (map fst AVAILABLE_SHAPES)"
  then have "map_of AVAILABLE_SHAPES name = None"
    by (simp add: map_of_eq_None_iff)
  then show ?thesis by (simp add: generate_shape_def)
qed

theorem generate_shape_unknown_name_witness:
  "''not-a-shape'' \<notin> set (map fst AVAILABLE_SHAPES)
   \<and> generate_shape \<lparr>data_x = [1, 2], data_y = [3, 4]\<rparr> ''not-a-shape''
       = Inl (ValueError ''No such shape as not-a-shape.'')"
proof -
  have h: "''not-a-shape'' \<notin> set (map fst AVAILABLE_SHAPES)"
    by (simp add: AVAILABLE_SHAPES_def)
  show ?thesis
    using h generate_shape_unknown_name[OF h, of "\<lparr>data_x = [1, 2], data_y = [3, 4]\<rparr>"]
    by simp
qed




text \<open>
  C8, as amended. The names of the registry are exactly circle, bullseye, dots, x, h_lines
  and v_lines, and \<open>generate_shape\<close> answers \<^verbatim>\<open>No such shape as {name}.\<close> for exactly
  the names outside this set.
\<close>

theorem available_shapes_names:
  "dom (map_of AVAILABLE_SHAPES) =
     {''circle'', ''bullseye'', ''dots'', ''x'', ''h_lines'', ''v_lines''}
   \<and> (generate_shape d name = Inl (ValueError (''No such shape as '' @ name @ ''.''))
        \<longleftrightarrow> name \<notin> {''circle'', ''bullseye'', ''dots'', ''x'', ''h_lines'', ''v_lines''})"
proof -
  define S where "S = {''circle'', ''bullseye'', ''dots'', ''x'', ''h_lines'', ''v_lines''}"
  have keys: "set (map fst AVAILABLE_SHAPES) = S"
    by (simp add: AVAILABLE_SHAPES_def S_def)
  have d: "dom (map_of AVAILABLE_SHAPES) = S"
    using keys by (simp add: dom_map_of_conv_image_fst)
  have iff: "generate_shape d name = Inl (ValueError (''No such shape as '' @ name @ ''.''))
        \<longleftrightarrow> name \<notin> S"
  proof (cases "name \<in> S")
    case True
    then consider "name = ''circle''" | "name = ''bullseye''" | "name = ''dots''"
      | "name = ''x''" | "name = ''h_lines''" | "name = ''v_lines''"
      unfolding S_def by (elim insertE emptyE)
    then have "generate_shape d name \<noteq> Inl (ValueError (''No such shape as '' @ name @ ''.''))"
      by cases (simp_all only: generate_shape_known sum.distinct sum.inject pyerror.distinct
          not_False_eq_True)
    with True show ?thesis by simp
  next
    case False
    with keys have "map_of AVAILABLE_SHAPES name = None"
      by (simp add: map_of_eq_None_iff)
    then have "generate_shape d name = Inl (ValueError (''No such shape as '' @ name @ ''.''))"
      by (simp add: generate_shape_def)
    with False show ?thesis by simp
  qed
  show ?thesis
    using d iff unfolding S_def by (rule conjI)
qed

text \<open>
  The set of names in the claim is not the registry's: dots is a key, and it is not among
  the claim's six names.
\<close>

theorem available_shapes_names_counterexample:
  "set (map fst AVAILABLE_SHAPES) \<noteq>
     {''circle'', ''bullseye'', ''dot-grid'', ''x-lines'', ''horizontal-lines'',
      ''vertical-lines''}"
proof
  assume "set (map fst AVAILABLE_SHAPES) =
     {''circle'', ''bullseye'', ''dot-grid'', ''x-lines'', ''horizontal-lines'',
      ''vertical-lines''}"
  moreover have "''dots'' \<in> set (map fst AVAILABLE_SHAPES)"
    by (simp add: AVAILABLE_SHAPES_def)
  ultimately have "''dots'' \<in> {''circle'', ''bullseye'', ''dot-grid'', ''x-lines'',
      ''horizontal-lines'', ''vertical-lines''}"
    by simp
  then show False by simp
qed

text \<open>
  C9. For every data frame, building the shape named circle returns a Circle whose centre
  is the pair of the means of the two columns.
\<close>

theorem generate_shape_circle_center:
  "\<exists>c. generate_shape d ''circle'' = Inr (Circle c)
      \<and> cx c = mean (data_x d) \<and> cy c = mean (data_y d)"
  by (simp add: generate_shape_def AVAILABLE_SHAPES_def)

text \<open>
  C10. For every data frame the constructed Circle has radius 30, so the circles built from
  any two data frames have the same radius.
\<close>

theorem circle_radius_constant:
  "\<exists>c1 c2. Circle_init [Data d1] = Inr c1 \<and> Circle_init [Data d2] = Inr c2
      \<and> r c1 = 30 \<and> r c2 = r c1"
  by simp

end
